theory Spec2Isabelle
  imports Main "HOL-Library.AList" "HOL-Library.List_Lexorder" "HOL-Library.Product_Lexorder"
begin

section \<open>Strings, dates and the calendar arithmetic the engine relies on\<close>

text \<open>
  A Python \<open>str\<close> is a sequence of Unicode code points, compared lexicographically by
  code point. The labels of the application are Japanese, so a string is modelled as the
  list of its code points (as integers); the order on lists is the lexicographic one.
\<close>

type_synonym str = "int list"

text \<open>\<open>sub in s\<close> on strings: \<open>sub\<close> occurs as a contiguous slice of \<open>s\<close>.\<close>

fun contains :: "str \<Rightarrow> str \<Rightarrow> bool" where
  "contains sub [] = (sub = [])"
| "contains sub (c # cs) = (take (length sub) (c # cs) = sub \<or> contains sub cs)"

text \<open>
  A \<open>datetime.date\<close> is a (year, month, day) triple of the proleptic Gregorian calendar
  with \<open>1 \<le> year \<le> 9999\<close>; dates compare lexicographically on that triple.
\<close>

type_synonym date = "int \<times> int \<times> int"

datatype error = ValueError | OverflowError | KeyError

definition isleap :: "int \<Rightarrow> bool" where
  "isleap y = (y mod 4 = 0 \<and> (y mod 100 \<noteq> 0 \<or> y mod 400 = 0))"

definition days_in_month :: "int \<Rightarrow> int \<Rightarrow> int" where
  "days_in_month y m =
     (if m = 2 then (if isleap y then 29 else 28)
      else if m = 4 \<or> m = 6 \<or> m = 9 \<or> m = 11 then 30 else 31)"

fun valid_date :: "date \<Rightarrow> bool" where
  "valid_date (y, m, d) =
     (1 \<le> y \<and> y \<le> 9999 \<and> 1 \<le> m \<and> m \<le> 12 \<and> 1 \<le> d \<and> d \<le> days_in_month y m)"

text \<open>The constructor \<open>date(y, m, d)\<close> (and \<open>replace\<close>) raises ValueError off the calendar.\<close>

definition mk_date :: "int \<Rightarrow> int \<Rightarrow> int \<Rightarrow> error + date" where
  "mk_date y m d = (if valid_date (y, m, d) then Inr (y, m, d) else Inl ValueError)"

text \<open>
  \<open>date + timedelta(days=n)\<close> for \<open>n \<ge> 0\<close>: the calendar day reached after \<open>n\<close> steps to
  the following day; OverflowError beyond 9999-12-31.
\<close>

fun next_day :: "date \<Rightarrow> date" where
  "next_day (y, m, d) =
     (if d < days_in_month y m then (y, m, d + 1)
      else if m < 12 then (y, m + 1, 1)
      else (y + 1, 1, 1))"

fun add_days :: "date \<Rightarrow> nat \<Rightarrow> date" where
  "add_days dt 0 = dt"
| "add_days dt (Suc n) = add_days (next_day dt) n"

definition date_add_days :: "date \<Rightarrow> nat \<Rightarrow> error + date" where
  "date_add_days dt n = (let r = add_days dt n in if fst r \<le> 9999 then Inr r else Inl OverflowError)"

text \<open>
  \<open>dt + relativedelta(years=ys, months=ms, days=n)\<close> of dateutil, for \<open>\<bar>ms\<bar> \<le> 12\<close> and
  \<open>n \<ge> 0\<close>: the year and month are shifted, the day is clipped to the length of the month
  reached, \<open>replace\<close> rejects a year outside 1..9999, and the days are added last.
  \<open>relativedelta(weeks=w)\<close> is \<open>days = 7 * w\<close>; \<open>dt - relativedelta(years=1)\<close> is
  \<open>dt + relativedelta(years=-1)\<close>.
\<close>

fun rd_add :: "date \<Rightarrow> int \<Rightarrow> int \<Rightarrow> nat \<Rightarrow> error + date" where
  "rd_add (y, m, d) ys ms n =
     (let year = y + ys;
          month = m + ms;
          year' = (if month > 12 then year + 1 else if month < 1 then year - 1 else year);
          month' = (if month > 12 then month - 12 else if month < 1 then month + 12 else month);
          day = min (days_in_month year' month') d
      in if 1 \<le> year' \<and> year' \<le> 9999 then date_add_days (year', month', day) n
         else Inl ValueError)"

text \<open>
  \<open>relativedelta(dt1, dt2).years\<close>. dateutil starts from the difference in calendar
  months, splits it into years and months (\<open>_set_months\<close>, truncating towards zero),
  adds that to \<open>dt2\<close> and, while the sum has overshot \<open>dt1\<close>, moves the month count one
  step back towards zero and adds again.
\<close>

definition set_months :: "int \<Rightarrow> int \<times> int" where
  "set_months months =
     (if months > 11 then (months div 12, months mod 12)
      else if months < - 11 then (- ((- months) div 12), - ((- months) mod 12))
      else (0, months))"

function rd_adjust :: "bool \<Rightarrow> date \<Rightarrow> date \<Rightarrow> int \<Rightarrow> error + int" where
  "rd_adjust up dt1 dt2 months =
     (case set_months months of (ys, ms) \<Rightarrow>
        (case rd_add dt2 ys ms 0 of
           Inl e \<Rightarrow> Inl e
         | Inr dtm \<Rightarrow>
             if (if up then dtm < dt1 else dt1 < dtm)
             then rd_adjust up dt1 dt2 (months + (if up then 1 else - 1))
             else Inr ys))"
  by pat_completeness auto
termination
  apply (relation "measure (\<lambda>(up, dt1, dt2, months).
          if up then nat (12 * (10001 - fst dt2) + 12 - months)
          else nat (months + 12 * (fst dt2 + 1) + 12))")
   apply simp
  subgoal for up dt1 dt2 months ys ms dtm
    apply (cases dt2)
    apply (simp add: set_months_def Let_def split: if_splits)
    done
  done

definition relativedelta_years :: "date \<Rightarrow> date \<Rightarrow> error + int" where
  "relativedelta_years dt1 dt2 =
     rd_adjust (dt1 < dt2) dt1 dt2 ((fst dt1 - fst dt2) * 12 + (fst (snd dt1) - fst (snd dt2)))"

text \<open>
  \<open>strftime("%Y-%m-%d")\<close>: the year in decimal (four digits from year 1000 on; the C
  library on Linux does not pad smaller years), month and day as two digits.
\<close>

definition digit :: "int \<Rightarrow> int" where
  "digit n = 48 + n"

definition two_digits :: "int \<Rightarrow> str" where
  "two_digits n = [digit (n div 10), digit (n mod 10)]"

definition year_digits :: "int \<Rightarrow> str" where
  "year_digits y =
     (if y < 10 then [digit y]
      else if y < 100 then [digit (y div 10), digit (y mod 10)]
      else if y < 1000 then [digit (y div 100), digit (y div 10 mod 10), digit (y mod 10)]
      else [digit (y div 1000), digit (y div 100 mod 10), digit (y div 10 mod 10), digit (y mod 10)])"

fun strftime :: "date \<Rightarrow> str" where
  "strftime (y, m, d) = year_digits y @ [45] @ two_digits m @ [45] @ two_digits d"

text \<open>
  \<open>datetime.strptime(s, "%Y-%m-%d").date()\<close>. The library matches the pattern
  \<^verbatim>\<open>(\d\d\d\d)-(1[0-2]|0[1-9]|[1-9])-(3[0-1]|[1-2]\d|0[1-9]|[1-9]| [1-9])\<close>
  at the start of \<open>s\<close>, raises ValueError if nothing matches or text remains, and then
  builds the date. The model reads the ASCII digits 0..9 (the library's \<^verbatim>\<open>\d\<close> also
  accepts the decimal digits of other scripts).
\<close>

definition is_digit :: "int \<Rightarrow> bool" where
  "is_digit c = (48 \<le> c \<and> c \<le> 57)"

definition digit_val :: "int \<Rightarrow> int" where
  "digit_val c = c - 48"

fun parse_month :: "str \<Rightarrow> (int \<times> str) option" where
  "parse_month (a # b # rest) =
     (if a = 49 \<and> 48 \<le> b \<and> b \<le> 50 then Some (10 + digit_val b, rest)
      else if a = 48 \<and> 49 \<le> b \<and> b \<le> 57 then Some (digit_val b, rest)
      else if 49 \<le> a \<and> a \<le> 57 then Some (digit_val a, b # rest)
      else None)"
| "parse_month [a] = (if 49 \<le> a \<and> a \<le> 57 then Some (digit_val a, []) else None)"
| "parse_month [] = None"

fun parse_day :: "str \<Rightarrow> (int \<times> str) option" where
  "parse_day (a # b # rest) =
     (if a = 51 \<and> 48 \<le> b \<and> b \<le> 49 then Some (30 + digit_val b, rest)
      else if 49 \<le> a \<and> a \<le> 50 \<and> is_digit b then Some (10 * digit_val a + digit_val b, rest)
      else if a = 48 \<and> 49 \<le> b \<and> b \<le> 57 then Some (digit_val b, rest)
      else if 49 \<le> a \<and> a \<le> 57 then Some (digit_val a, b # rest)
      else if a = 32 \<and> 49 \<le> b \<and> b \<le> 57 then Some (digit_val b, rest)
      else None)"
| "parse_day [a] = (if 49 \<le> a \<and> a \<le> 57 then Some (digit_val a, []) else None)"
| "parse_day [] = None"

fun strptime :: "str \<Rightarrow> error + date" where
  "strptime (y1 # y2 # y3 # y4 # rest) =
     (if is_digit y1 \<and> is_digit y2 \<and> is_digit y3 \<and> is_digit y4 then
        (case rest of
           c # rest1 \<Rightarrow>
             (if c = 45 then
                (case parse_month rest1 of
                   Some (m, c' # rest2) \<Rightarrow>
                     (if c' = 45 then
                        (case parse_day rest2 of
                           Some (d, []) \<Rightarrow>
                             mk_date (1000 * digit_val y1 + 100 * digit_val y2
                                        + 10 * digit_val y3 + digit_val y4) m d
                         | _ \<Rightarrow> Inl ValueError)
                      else Inl ValueError)
                 | _ \<Rightarrow> Inl ValueError)
              else Inl ValueError)
         | [] \<Rightarrow> Inl ValueError)
      else Inl ValueError)"
| "strptime _ = Inl ValueError"

section \<open>Data model\<close>

text \<open>
  A history entry is the dictionary built by the record form:
  \<open>id\<close>, \<open>title\<close> (the donation type label), \<open>start\<close> (the date as \<open>%Y-%m-%d\<close> text),
  \<open>location\<close>, \<open>notes\<close> (here \<open>notes_text\<close>) and \<open>color\<close>.
\<close>

record donation =
  ident :: str
  title :: str
  start :: str
  location :: str
  notes_text :: str
  color :: str

text \<open>The labels: "400ml" + whole blood, "200ml" + whole blood, component donation.\<close>

definition zenketsu :: str where
  "zenketsu = [20840, 34880]"

definition seibun :: str where
  "seibun = [25104, 20998]"

definition wb400 :: str where
  "wb400 = [52, 48, 48, 109, 108, 20840, 34880]"

definition wb200 :: str where
  "wb200 = [50, 48, 48, 109, 108, 20840, 34880]"

definition component :: str where
  "component = [25104, 20998, 29486, 34880]"

definition male :: str where
  "male = [30007, 24615]"

definition female :: str where
  "female = [22899, 24615]"

definition ALL_TYPES :: "str list" where
  "ALL_TYPES = [wb400, wb200, component]"

definition MAX_VOLUME :: "(str \<times> int) list" where
  "MAX_VOLUME = [(male, 1200), (female, 800)]"

text \<open>
  A verdict is the dictionary stored per type: \<open>{"available": True}\<close>, or
  \<open>{"available": False, "reason": r}\<close> with an optional \<open>"next"\<close> date text. The three
  reason texts of the source are the constructors of \<open>reason\<close>, in the order age limit,
  donation interval, annual volume limit.
\<close>

datatype reason = AgeRestriction | MinimumInterval | AnnualVolumeCap

datatype verdict = Available | Blocked reason "str option"

section \<open>The eligibility engine\<close>

definition get_volume :: "str \<Rightarrow> int" where
  "get_volume donation_type =
     (if donation_type = wb200 then 200
      else if donation_type = wb400 then 400
      else 0)"

text \<open>
  A list comprehension over the history whose condition parses the entry's date: the
  entries are visited in order and the first unreadable date raises.
\<close>

fun filter_dated :: "(date \<Rightarrow> donation \<Rightarrow> bool) \<Rightarrow> donation list \<Rightarrow> error + donation list" where
  "filter_dated P [] = Inr []"
| "filter_dated P (h # hs) =
     (case strptime (start h) of
        Inl e \<Rightarrow> Inl e
      | Inr d \<Rightarrow>
          (case filter_dated P hs of
             Inl e \<Rightarrow> Inl e
           | Inr r \<Rightarrow> Inr (if P d h then h # r else r)))"

definition donations_before_target :: "date \<Rightarrow> donation list \<Rightarrow> error + donation list" where
  "donations_before_target target_date sorted_history =
     filter_dated (\<lambda>d h. d < target_date) sorted_history"

definition relevant_history :: "date \<Rightarrow> date \<Rightarrow> donation list \<Rightarrow> error + donation list" where
  "relevant_history window_start target_date sorted_history =
     filter_dated (\<lambda>d h. window_start < d \<and> d < target_date \<and> contains zenketsu (title h))
       sorted_history"

definition donations_in_window :: "date \<Rightarrow> date \<Rightarrow> donation list \<Rightarrow> error + donation list" where
  "donations_in_window window_start target_date sorted_history =
     filter_dated (\<lambda>d h. window_start \<le> d \<and> d < target_date \<and> contains zenketsu (title h))
       sorted_history"

text \<open>\<open>min(xs, key=lambda x: x['start'])\<close>: the first entry with the least key.\<close>

fun min_by_start :: "donation \<Rightarrow> donation list \<Rightarrow> donation" where
  "min_by_start best [] = best"
| "min_by_start best (h # hs) = min_by_start (if start h < start best then h else best) hs"

definition is_age_ok :: "str \<Rightarrow> str \<Rightarrow> int \<Rightarrow> bool" where
  "is_age_ok don_type gender age_on_date =
     ((don_type = wb200 \<and> 16 \<le> age_on_date \<and> age_on_date \<le> 69)
      \<or> (don_type = wb400
           \<and> ((gender = male \<and> 17 \<le> age_on_date \<and> age_on_date \<le> 69)
                \<or> (gender = female \<and> 18 \<le> age_on_date \<and> age_on_date \<le> 69)))
      \<or> (don_type = component \<and> 18 \<le> age_on_date \<and> age_on_date \<le> 69))"

text \<open>The number of weeks added to the date of the last donation, if any is added.\<close>

definition interval_weeks :: "str \<Rightarrow> str \<Rightarrow> str \<Rightarrow> nat option" where
  "interval_weeks last_title don_type gender =
     (if contains zenketsu last_title then
        (if don_type = component then Some 8
         else if last_title = wb400 then Some (if gender = male then 12 else 16)
         else if last_title = wb200 then Some 4
         else None)
      else if contains seibun last_title then Some 2
      else None)"

text \<open>The interval check: \<open>Some v\<close> when the type is blocked, \<open>None\<close> to go on.\<close>

definition interval_gate :: "date \<Rightarrow> donation option \<Rightarrow> str \<Rightarrow> str \<Rightarrow> error + verdict option" where
  "interval_gate target_date last_donation gender don_type =
     (case last_donation of
        None \<Rightarrow> Inr None
      | Some ld \<Rightarrow>
          (case strptime (start ld) of
             Inl e \<Rightarrow> Inl e
           | Inr last_date \<Rightarrow>
               (case (case interval_weeks (title ld) don_type gender of
                        None \<Rightarrow> Inr last_date
                      | Some w \<Rightarrow> rd_add last_date 0 0 (7 * w)) of
                  Inl e \<Rightarrow> Inl e
                | Inr next_available \<Rightarrow>
                    if target_date < next_available
                    then Inr (Some (Blocked MinimumInterval (Some (strftime next_available))))
                    else Inr None)))"

text \<open>
  The annual volume check. The window start is computed once; the second comprehension
  of the source recomputes the same value for every entry.
\<close>

definition cap_gate :: "date \<Rightarrow> donation list \<Rightarrow> str \<Rightarrow> str \<Rightarrow> error + verdict option" where
  "cap_gate target_date sorted_history gender don_type =
     (if contains zenketsu don_type then
        (case rd_add target_date (- 1) 0 0 of
           Inl e \<Rightarrow> Inl e
         | Inr window_start \<Rightarrow>
             (case relevant_history window_start target_date sorted_history of
                Inl e \<Rightarrow> Inl e
              | Inr relevant \<Rightarrow>
                  (let volume_in_year = sum_list (map (\<lambda>h. get_volume (title h)) relevant)
                   in case map_of MAX_VOLUME gender of
                        None \<Rightarrow> Inl KeyError
                      | Some mx \<Rightarrow>
                          if volume_in_year + get_volume don_type > mx then
                            (case donations_in_window window_start target_date sorted_history of
                               Inl e \<Rightarrow> Inl e
                             | Inr [] \<Rightarrow> Inr None
                             | Inr (h # hs) \<Rightarrow>
                                 (case strptime (start (min_by_start h hs)) of
                                    Inl e \<Rightarrow> Inl e
                                  | Inr first_date \<Rightarrow>
                                      (case rd_add first_date 1 0 0 of
                                         Inl e \<Rightarrow> Inl e
                                       | Inr block_lift_date \<Rightarrow>
                                           Inr (Some (Blocked AnnualVolumeCap
                                                        (Some (strftime block_lift_date)))))))
                          else Inr None)))
      else Inr None)"

text \<open>The body of the loop over the types: the verdict stored for one type.\<close>

definition type_verdict ::
  "date \<Rightarrow> donation list \<Rightarrow> donation option \<Rightarrow> str \<Rightarrow> int \<Rightarrow> str \<Rightarrow> error + verdict" where
  "type_verdict target_date sorted_history last_donation gender age_on_date don_type =
     (if \<not> is_age_ok don_type gender age_on_date then Inr (Blocked AgeRestriction None)
      else
        (case interval_gate target_date last_donation gender don_type of
           Inl e \<Rightarrow> Inl e
         | Inr (Some v) \<Rightarrow> Inr v
         | Inr None \<Rightarrow>
             (case cap_gate target_date sorted_history gender don_type of
                Inl e \<Rightarrow> Inl e
              | Inr (Some v) \<Rightarrow> Inr v
              | Inr None \<Rightarrow> Inr Available)))"

text \<open>The dictionary \<open>results\<close> keeps its keys in insertion order.\<close>

fun types_loop ::
  "date \<Rightarrow> donation list \<Rightarrow> donation option \<Rightarrow> str \<Rightarrow> int \<Rightarrow> str list
     \<Rightarrow> (str \<times> verdict) list \<Rightarrow> error + (str \<times> verdict) list" where
  "types_loop target_date sorted_history last_donation gender age_on_date [] results = Inr results"
| "types_loop target_date sorted_history last_donation gender age_on_date (don_type # rest) results =
     (case type_verdict target_date sorted_history last_donation gender age_on_date don_type of
        Inl e \<Rightarrow> Inl e
      | Inr v \<Rightarrow>
          types_loop target_date sorted_history last_donation gender age_on_date rest
            (AList.update don_type v results))"

definition sorted_history_of :: "donation list \<Rightarrow> donation list" where
  "sorted_history_of history = sort_key start history"

definition last_donation_of :: "date \<Rightarrow> donation list \<Rightarrow> error + donation option" where
  "last_donation_of target_date sorted_history =
     (case donations_before_target target_date sorted_history of
        Inl e \<Rightarrow> Inl e
      | Inr before \<Rightarrow> Inr (if before \<noteq> [] then Some (last before) else None))"

definition check_availability ::
  "date \<Rightarrow> donation list \<Rightarrow> str \<Rightarrow> date \<Rightarrow> error + (str \<times> verdict) list" where
  "check_availability target_date history gender birthday =
     (case relativedelta_years target_date birthday of
        Inl e \<Rightarrow> Inl e
      | Inr age_on_date \<Rightarrow>
          (let sorted_history = sorted_history_of history
           in case last_donation_of target_date sorted_history of
                Inl e \<Rightarrow> Inl e
              | Inr last_donation \<Rightarrow>
                  types_loop target_date sorted_history last_donation gender age_on_date
                    ALL_TYPES []))"

section \<open>Records as the application writes them, and well-formed inputs\<close>

text \<open>
  The record form stores the clicked date through \<open>strftime\<close> and derives the colour from
  the type label (green for a component donation, red otherwise).
\<close>

definition new_record :: "str \<Rightarrow> str \<Rightarrow> date \<Rightarrow> str \<Rightarrow> str \<Rightarrow> donation" where
  "new_record uuid donation_type target_date final_location notes_in =
     \<lparr>ident = uuid, title = donation_type, start = strftime target_date,
      location = final_location, notes_text = notes_in,
      color = (if contains seibun donation_type then [35, 52, 67, 65, 70, 53, 48]
               else [35, 70, 70, 52, 67, 52, 67])\<rparr>"

text \<open>
  A date text is canonical when it is what \<open>strftime\<close> writes for the date it reads back
  to, with a four-digit year. An input is well formed when both dates are calendar dates,
  the birth date is not after the target date, the sex is one of the two radio options,
  every history entry carries a canonical date text, and the target date lies before the
  last year of the calendar (so that no date the engine computes leaves the range of
  \<open>datetime.date\<close>).
\<close>

definition canonical_date_text :: "str \<Rightarrow> bool" where
  "canonical_date_text s =
     (case strptime s of Inl e \<Rightarrow> False | Inr d \<Rightarrow> 1000 \<le> fst d \<and> strftime d = s)"

definition wf_history :: "donation list \<Rightarrow> bool" where
  "wf_history history = list_all (\<lambda>r. canonical_date_text (start r)) history"

definition wf_input :: "date \<Rightarrow> donation list \<Rightarrow> str \<Rightarrow> date \<Rightarrow> bool" where
  "wf_input target_date history gender birthday =
     (valid_date target_date \<and> valid_date birthday \<and> birthday \<le> target_date
      \<and> fst target_date < 9999 \<and> (gender = male \<or> gender = female) \<and> wf_history history)"

text \<open>The date an entry denotes (the day 0-00-00, before every date, if it has none).\<close>

definition date_of :: "donation \<Rightarrow> date" where
  "date_of r = (case strptime (start r) of Inl e \<Rightarrow> (0, 0, 0) | Inr d \<Rightarrow> d)"

section \<open>Properties\<close>

text \<open>
  C9. There is a well-formed input on which a type is blocked by the annual volume limit
  and the reported next date is the target date itself: a woman born 1990-01-01 with
  400 ml whole-blood donations on 2023-06-01, 2023-10-01 and 2024-02-01 asks for
  2024-06-01. The earliest entry of the half-open window is dated exactly one year before
  the target date, and the reported date 2024-06-01 is not after the target date.
\<close>

theorem cap_next_date_can_be_target:
  "\<exists>target_date history gender birthday res.
     wf_input target_date history gender birthday
     \<and> check_availability target_date history gender birthday = Inr res
     \<and> map_of res wb400 = Some (Blocked AnnualVolumeCap (Some (strftime target_date)))"
proof -
  let ?h = "[new_record [49] wb400 (2023, 6, 1) [] [], new_record [50] wb400 (2023, 10, 1) [] [],
             new_record [51] wb400 (2024, 2, 1) [] []]"
  let ?res = "[(wb400, Blocked AnnualVolumeCap (Some (strftime (2024, 6, 1)))),
               (wb200, Blocked AnnualVolumeCap (Some (strftime (2024, 6, 1)))),
               (component, Available)]"
  have wf: "wf_input (2024, 6, 1) ?h female (1990, 1, 1)"
    by code_simp
  have run: "check_availability (2024, 6, 1) ?h female (1990, 1, 1) = Inr ?res"
    by code_simp
  have look: "map_of ?res wb400 = Some (Blocked AnnualVolumeCap (Some (strftime (2024, 6, 1))))"
    by code_simp
  from wf run look show ?thesis by blast
qed

end
